theory Spec2Isabelle
  imports Main "HOL-Library.Mapping" "HOL-Library.AList_Mapping"
begin

section \<open>The service registry of go-xml-rpc (map.go)\<close>

text \<open>
  A shallow embedding of \<^verbatim>\<open>map.go\<close>: the registry \<^verbatim>\<open>serviceMap\<close>, its
  \<^verbatim>\<open>register\<close> and \<^verbatim>\<open>get\<close> methods and the helpers \<^verbatim>\<open>isExported\<close> and
  \<^verbatim>\<open>isExportedOrBuiltin\<close>.

  \<^item> Go strings are byte sequences: \<open>string\<close> (a list of \<open>char\<close>, one per byte).
  \<^item> A Go map is a \<open>mapping\<close>; a nil map is \<open>None\<close>, a nil pointer to a service or
    to a method is \<open>None\<close>.
  \<^item> A Go \<^verbatim>\<open>error\<close> built by \<^verbatim>\<open>fmt.Errorf\<close> is a constructor of \<open>rpc_error\<close>, one per
    format string, carrying the value that is printed into it.
  \<^item> A run-time panic is the outcome \<open>Panics\<close>; a normal return is \<open>Returns\<close>.
  \<^item> The mutex and the log output are left out: the model is sequential, and of the
    log statements only the evaluation of their arguments is kept (line 210 reads
    a field through a pointer).
\<close>

subsection \<open>Library: unicode/utf8 and unicode\<close>

definition RuneError :: nat where
  "RuneError = 0xFFFD"

definition MaxLatin1 :: nat where
  "MaxLatin1 = 0xFF"

text \<open>
  \<^verbatim>\<open>utf8.DecodeRuneInString\<close>: the first code point of a string and its width in bytes;
  \<open>(RuneError, 0)\<close> for the empty string and \<open>(RuneError, 1)\<close> for an encoding that is
  not valid UTF-8 (a stray continuation byte, an over-long form, a surrogate, a value
  above U+10FFFF, or a truncated sequence). \<open>accept\<close> is the range of the second byte
  that the first byte admits, as in Go's table \<^verbatim>\<open>acceptRanges\<close>.
\<close>

definition accept :: "nat \<Rightarrow> nat \<times> nat" where
  "accept s0 =
     (if s0 = 0xE0 then (0xA0, 0xBF)
      else if s0 = 0xED then (0x80, 0x9F)
      else if s0 = 0xF0 then (0x90, 0xBF)
      else if s0 = 0xF4 then (0x80, 0x8F)
      else (0x80, 0xBF))"

definition continuation :: "nat \<Rightarrow> bool" where
  "continuation b = (0x80 \<le> b \<and> b \<le> 0xBF)"

fun DecodeRuneInString :: "string \<Rightarrow> nat \<times> nat" where
  "DecodeRuneInString [] = (RuneError, 0)"
| "DecodeRuneInString (c0 # rest) =
     (let s0 = (of_char c0 :: nat) in
      if s0 < 0x80 then (s0, 1)
      else if s0 < 0xC2 \<or> 0xF4 < s0 then (RuneError, 1)
      else
        (let sz = (if s0 < 0xE0 then 2 else if s0 < 0xF0 then 3 else 4 :: nat);
             bs = map of_char rest
         in
           if Suc (length rest) < sz then (RuneError, 1)
           else if bs ! 0 < fst (accept s0) \<or> snd (accept s0) < bs ! 0 then (RuneError, 1)
           else if sz \<le> 2 then ((s0 mod 32) * 64 + bs ! 0 mod 64, 2)
           else if \<not> continuation (bs ! 1) then (RuneError, 1)
           else if sz \<le> 3 then ((s0 mod 16) * 4096 + (bs ! 0 mod 64) * 64 + bs ! 1 mod 64, 3)
           else if \<not> continuation (bs ! 2) then (RuneError, 1)
           else ((s0 mod 8) * 262144 + (bs ! 0 mod 64) * 4096 + (bs ! 1 mod 64) * 64
                   + bs ! 2 mod 64, 4)))"

text \<open>
  \<^verbatim>\<open>unicode.IsUpper\<close>: for a code point up to \<open>MaxLatin1\<close> Go reads its own table of
  Latin-1 properties, where the upper-case letters are A-Z, U+00C0-U+00D6 and
  U+00D8-U+00DE; beyond Latin-1 it searches the range table \<^verbatim>\<open>unicode.Upper\<close>. That
  table belongs to the Go library and is the parameter \<open>Upper\<close> of everything below.
\<close>

definition IsUpper :: "(nat \<Rightarrow> bool) \<Rightarrow> nat \<Rightarrow> bool" where
  "IsUpper Upper r =
     (if r \<le> MaxLatin1
      then (0x41 \<le> r \<and> r \<le> 0x5A) \<or> (0xC0 \<le> r \<and> r \<le> 0xD6) \<or> (0xD8 \<le> r \<and> r \<le> 0xDE)
      else Upper r)"

text \<open>
  \<^verbatim>\<open>strings.Split(s, sep)\<close> for a separator of one byte: the pieces of \<open>s\<close> between
  the occurrences of \<open>sep\<close>, all of them (one more piece than there are separators).
  \<^verbatim>\<open>get\<close> calls it with \<^verbatim>\<open>"."\<close> only.
\<close>

fun Split :: "string \<Rightarrow> char \<Rightarrow> string list" where
  "Split [] sep = [[]]"
| "Split (c # cs) sep =
     (if c = sep then [] # Split cs sep
      else (case Split cs sep of [] \<Rightarrow> [[c]] | p # ps \<Rightarrow> (c # p) # ps))"

subsection \<open>Library: reflect\<close>

text \<open>
  A \<^verbatim>\<open>reflect.Type\<close> as far as \<^verbatim>\<open>map.go\<close> looks at it: its \<open>Name\<close> and \<open>PkgPath\<close>
  (both empty for an unnamed type such as \<^verbatim>\<open>*T\<close> or \<^verbatim>\<open>struct{...}\<close>; \<open>PkgPath\<close> empty
  also for a predeclared type such as \<^verbatim>\<open>int\<close> or \<^verbatim>\<open>error\<close>), whether its \<open>Kind\<close> is
  \<^verbatim>\<open>reflect.Ptr\<close>, and for a pointer its \<open>Elem\<close>. The code compares kinds with
  \<^verbatim>\<open>reflect.Ptr\<close> only, so all other kinds are one constructor. Types are finite
  trees here; two types are identical when they are equal as trees.
\<close>

datatype kind = Ptr | OtherKind

datatype rtype =
    PtrTo string string rtype
  | Plain string string

fun Name :: "rtype \<Rightarrow> string" where
  "Name (PtrTo n p e) = n"
| "Name (Plain n p) = n"

fun PkgPath :: "rtype \<Rightarrow> string" where
  "PkgPath (PtrTo n p e) = p"
| "PkgPath (Plain n p) = p"

fun Kind :: "rtype \<Rightarrow> kind" where
  "Kind (PtrTo n p e) = Ptr"
| "Kind (Plain n p) = OtherKind"

text \<open>\<^verbatim>\<open>t.Elem()\<close> panics on a type that has no element type: \<open>None\<close>.\<close>

fun Elem :: "rtype \<Rightarrow> rtype option" where
  "Elem (PtrTo n p e) = Some e"
| "Elem (Plain n p) = None"

text \<open>
  The type of a method as \<^verbatim>\<open>reflect.Type.Method(i)\<close> reports it for a concrete type:
  a function type whose first parameter is the receiver.
\<close>

record FuncType =
  params :: "rtype list"
  results :: "rtype list"

definition NumIn :: "FuncType \<Rightarrow> nat" where
  "NumIn ft = length (params ft)"

definition NumOut :: "FuncType \<Rightarrow> nat" where
  "NumOut ft = length (results ft)"

text \<open>
  \<^verbatim>\<open>In(i)\<close> and \<^verbatim>\<open>Out(i)\<close> panic out of range; \<^verbatim>\<open>register\<close> calls them only
  after it has compared \<^verbatim>\<open>NumIn()\<close> and \<^verbatim>\<open>NumOut()\<close>, so below they are read
  inside the lists only.
\<close>

definition In :: "FuncType \<Rightarrow> nat \<Rightarrow> rtype" where
  "In ft i = params ft ! i"

definition Out :: "FuncType \<Rightarrow> nat \<Rightarrow> rtype" where
  "Out ft i = results ft ! i"

text \<open>\<^verbatim>\<open>reflect.Method\<close>; the fields \<^verbatim>\<open>Func\<close> and \<^verbatim>\<open>Index\<close> are never read.\<close>

record Method =
  Method_Name :: string
  Method_PkgPath :: string
  Method_Type :: FuncType

text \<open>
  What reflection sees of a receiver that is not the nil interface: its dynamic type,
  the method set of that type in the order of \<^verbatim>\<open>Method(0)\<close>, \<^verbatim>\<open>Method(1)\<close>, ..., and,
  for a pointer, whether it is nil. The nil interface itself is \<open>None\<close> of
  \<open>Value option\<close>.
\<close>

record Value =
  TypeOf :: rtype
  MethodSet :: "Method list"
  IsNil :: bool

datatype panic = NilDereference | ZeroValueType

datatype 'a outcome = Panics panic | Returns 'a

text \<open>
  \<^verbatim>\<open>reflect.Indirect(v).Type().Name()\<close>: \<^verbatim>\<open>Indirect\<close> follows one pointer; on a nil
  pointer it yields the zero \<^verbatim>\<open>Value\<close>, whose \<^verbatim>\<open>Type()\<close> panics.
\<close>

definition IndirectTypeName :: "Value \<Rightarrow> string outcome" where
  "IndirectTypeName v =
     (case TypeOf v of
        PtrTo n p e \<Rightarrow> if IsNil v then Panics ZeroValueType else Returns (Name e)
      | Plain n p \<Rightarrow> Returns n)"

definition typeOfError :: rtype where
  "typeOfError = Plain ''error'' []"

definition typeOfRequest :: rtype where
  "typeOfRequest = Plain ''Request'' ''net/http''"

subsection \<open>service, serviceMethod, serviceMap\<close>

text \<open>The field \<^verbatim>\<open>method\<close> of \<^verbatim>\<open>serviceMethod\<close> is \<open>rmethod\<close> here.\<close>

record serviceMethod =
  rmethod :: Method
  argsType :: rtype
  replyType :: rtype

record service =
  name :: string
  rcvr :: Value
  rcvrType :: rtype
  methods :: "(string, serviceMethod) mapping"
  passReq :: bool

record serviceMap =
  services :: "((string, service) mapping) option"
  defaultService :: "service option"

datatype rpc_error =
    TypeNotExported string
  | NoServiceName rtype
  | NoSuitableMethods string
  | ServiceAlreadyDefined string
  | IllFormed string
  | CantFindService string
  | CantFindMethod string

subsection \<open>isExported, isExportedOrBuiltin\<close>

definition isExported :: "(nat \<Rightarrow> bool) \<Rightarrow> string \<Rightarrow> bool" where
  "isExported Upper nm = IsUpper Upper (fst (DecodeRuneInString nm))"

text \<open>The loop \<^verbatim>\<open>for t.Kind() == reflect.Ptr { t = t.Elem() }\<close> is the first equation.\<close>

fun isExportedOrBuiltin :: "(nat \<Rightarrow> bool) \<Rightarrow> rtype \<Rightarrow> bool" where
  "isExportedOrBuiltin Upper (PtrTo n p e) = isExportedOrBuiltin Upper e"
| "isExportedOrBuiltin Upper (Plain n p) = (isExported Upper n \<or> p = [])"

subsection \<open>register\<close>

text \<open>
  The body of the loop over the receiver's methods (lines 77-146): \<open>None\<close> when a test
  fails and the loop goes on with the next method (\<^verbatim>\<open>continue\<close>), otherwise the
  \<^verbatim>\<open>serviceMethod\<close> stored at line 142. \<^verbatim>\<open>t.Kind() != reflect.Ptr\<close> is
  \<open>Elem t = None\<close>, and \<^verbatim>\<open>t.Elem()\<close> is read in the other branch.
\<close>

definition suitableMethod :: "(nat \<Rightarrow> bool) \<Rightarrow> bool \<Rightarrow> Method \<Rightarrow> serviceMethod option" where
  "suitableMethod Upper pr m =
     (let mtype = Method_Type m;
          paramOffset = (if pr then 1 else 0 :: nat)
      in
        if Method_PkgPath m \<noteq> [] then None
        else if NumIn mtype \<noteq> 3 + paramOffset then None
        else if pr \<and> (Kind (In mtype 1) \<noteq> Ptr \<or> Elem (In mtype 1) \<noteq> Some typeOfRequest)
          then None
        else
          (let args = In mtype (1 + paramOffset) in
           case Elem args of
             None \<Rightarrow> None
           | Some argsElem \<Rightarrow>
               if \<not> isExportedOrBuiltin Upper args then None
               else
                 (let reply = In mtype (2 + paramOffset) in
                  case Elem reply of
                    None \<Rightarrow> None
                  | Some replyElem \<Rightarrow>
                      if \<not> isExportedOrBuiltin Upper reply then None
                      else if NumOut mtype \<noteq> 1 then None
                      else if Out mtype 0 \<noteq> typeOfError then None
                      else Some \<lparr>rmethod = m, argsType = argsElem, replyType = replyElem\<rparr>)))"

text \<open>The loop of lines 75-147 over \<^verbatim>\<open>Method(0)\<close>, ..., filling \<^verbatim>\<open>s.methods\<close>.\<close>

fun setupMethods ::
  "(nat \<Rightarrow> bool) \<Rightarrow> bool \<Rightarrow> Method list \<Rightarrow> (string, serviceMethod) mapping
     \<Rightarrow> (string, serviceMethod) mapping"
where
  "setupMethods Upper pr [] ms = ms"
| "setupMethods Upper pr (m # rest) ms =
     (case suitableMethod Upper pr m of
        None \<Rightarrow> setupMethods Upper pr rest ms
      | Some sm \<Rightarrow> setupMethods Upper pr rest (Mapping.update (Method_Name m) sm ms))"

text \<open>
  Lines 56-153 for a receiver that is not the nil interface: the service that
  \<^verbatim>\<open>register\<close> goes on to store, or the error it returns before it touches the
  registry.
\<close>

definition setupService ::
  "(nat \<Rightarrow> bool) \<Rightarrow> Value \<Rightarrow> string \<Rightarrow> bool \<Rightarrow> (rpc_error + service) outcome"
where
  "setupService Upper v nm pr =
     (case (if nm = [] then IndirectTypeName v else Returns nm) of
        Panics p \<Rightarrow> Panics p
      | Returns sname \<Rightarrow>
          if nm = [] \<and> \<not> isExported Upper sname then Returns (Inl (TypeNotExported sname))
          else if sname = [] then Returns (Inl (NoServiceName (TypeOf v)))
          else
            (let ms = setupMethods Upper pr (MethodSet v) Mapping.empty in
             if Mapping.is_empty ms then Returns (Inl (NoSuitableMethods sname))
             else Returns (Inr \<lparr>name = sname, rcvr = v, rcvrType = TypeOf v,
                                 methods = ms, passReq = pr\<rparr>)))"

text \<open>
  \<^verbatim>\<open>register\<close> returns its error (\<open>None\<close> for \<^verbatim>\<open>nil\<close>) and leaves the registry
  changed or not: the result is the pair of the two. With the nil interface as
  receiver \<^verbatim>\<open>reflect.TypeOf\<close> is nil and \<^verbatim>\<open>reflect.ValueOf\<close> is the zero
  \<^verbatim>\<open>Value\<close>: line 65 panics when the name is empty, and line 75 does otherwise.
\<close>

definition register ::
  "(nat \<Rightarrow> bool) \<Rightarrow> serviceMap \<Rightarrow> Value option \<Rightarrow> string \<Rightarrow> bool \<Rightarrow> bool
     \<Rightarrow> rpc_error option outcome \<times> serviceMap"
where
  "register Upper m r nm pr isDefault =
     (case r of
        None \<Rightarrow> (Panics (if nm = [] then ZeroValueType else NilDereference), m)
      | Some v \<Rightarrow>
          (case setupService Upper v nm pr of
             Panics p \<Rightarrow> (Panics p, m)
           | Returns (Inl e) \<Rightarrow> (Returns (Some e), m)
           | Returns (Inr s) \<Rightarrow>
               if isDefault then (Returns None, m\<lparr>defaultService := Some s\<rparr>)
               else
                 (case services m of
                    None \<Rightarrow>
                      (Returns None,
                       m\<lparr>services := Some (Mapping.update (name s) s Mapping.empty)\<rparr>)
                  | Some svcs \<Rightarrow>
                      if Mapping.lookup svcs (name s) \<noteq> None
                      then (Returns (Some (ServiceAlreadyDefined (name s))), m)
                      else (Returns None,
                            m\<lparr>services := Some (Mapping.update (name s) s svcs)\<rparr>))))"

subsection \<open>get\<close>

text \<open>Reading a Go map, nil or not: the zero value (here the nil pointer) for no entry.\<close>

definition serviceAt :: "((string, service) mapping) option \<Rightarrow> string \<Rightarrow> service option" where
  "serviceAt mp k = (case mp of None \<Rightarrow> None | Some svcs \<Rightarrow> Mapping.lookup svcs k)"

text \<open>
  Line 210 evaluates \<^verbatim>\<open>service.name\<close> as an argument of \<^verbatim>\<open>log.Printf\<close>, before
  the test \<^verbatim>\<open>service == nil\<close> of line 214: through a nil pointer that is a
  run-time panic.
\<close>

definition get :: "serviceMap \<Rightarrow> string \<Rightarrow> (rpc_error + service \<times> serviceMethod) outcome" where
  "get m meth =
     (let parts = Split meth (CHR ''.'') in
      if length parts \<noteq> 2 \<and> length parts \<noteq> 1 then Returns (Inl (IllFormed meth))
      else
        (let svc = (if length parts = 1 then defaultService m
                    else serviceAt (services m) (parts ! 0))
         in
           case svc of
             None \<Rightarrow> Panics NilDereference
           | Some s \<Rightarrow>
               if svc = None then Returns (Inl (CantFindService meth))
               else
                 (let sm = (if length parts = 1 then Mapping.lookup (methods s) (parts ! 0)
                            else Mapping.lookup (methods s) (parts ! 1))
                  in
                    case sm of
                      None \<Rightarrow> Returns (Inl (CantFindMethod meth))
                    | Some d \<Rightarrow> Returns (Inr (s, d)))))"

text \<open>The registry of a new server: both fields nil.\<close>

definition emptyMap :: serviceMap where
  "emptyMap = \<lparr>services = None, defaultService = None\<rparr>"

subsection \<open>The shape of a method, in the words of the specification\<close>

text \<open>
  Section 4.1 of the specification, rule by rule, for comparison with the loop of
  \<^verbatim>\<open>register\<close>: (1) the method is exported; (2) it has \<open>2 + (1 if passReq else 0)\<close>
  parameters besides the receiver; (3) with \<open>passReq\<close> the first of them is a pointer
  to exactly the request type; (4) the next, the argument, is a pointer to a type that
  is exported or builtin; (5) so is the one after it, the reply; (6) there is one
  result, of type \<^verbatim>\<open>error\<close>. A pointer to a type is a type whose \<open>Elem\<close> is that
  type; "exported or builtin" is what \<^verbatim>\<open>isExportedOrBuiltin\<close> tests.
\<close>

definition pointerTo :: "(rtype \<Rightarrow> bool) \<Rightarrow> rtype \<Rightarrow> bool" where
  "pointerTo P t = (case Elem t of None \<Rightarrow> False | Some e \<Rightarrow> P e)"

definition nonReceiverParams :: "Method \<Rightarrow> rtype list" where
  "nonReceiverParams m = drop 1 (params (Method_Type m))"

definition argParam :: "bool \<Rightarrow> Method \<Rightarrow> rtype" where
  "argParam pr m = nonReceiverParams m ! (if pr then 1 else 0)"

definition replyParam :: "bool \<Rightarrow> Method \<Rightarrow> rtype" where
  "replyParam pr m = nonReceiverParams m ! (if pr then 2 else 1)"

definition shapeConforms :: "(nat \<Rightarrow> bool) \<Rightarrow> bool \<Rightarrow> Method \<Rightarrow> bool" where
  "shapeConforms Upper pr m =
     (Method_PkgPath m = []
      \<and> length (nonReceiverParams m) = 2 + (if pr then 1 else 0)
      \<and> (if pr then pointerTo (\<lambda>e. e = typeOfRequest) (nonReceiverParams m ! 0) else True)
      \<and> pointerTo (isExportedOrBuiltin Upper) (argParam pr m)
      \<and> pointerTo (isExportedOrBuiltin Upper) (replyParam pr m)
      \<and> results (Method_Type m) = [typeOfError])"

text \<open>
  The descriptor of a conforming method: the method itself with the types its
  argument and reply parameters point to.
\<close>

definition describes :: "bool \<Rightarrow> Method \<Rightarrow> serviceMethod \<Rightarrow> bool" where
  "describes pr m d =
     (rmethod d = m \<and> Elem (argParam pr m) = Some (argsType d)
      \<and> Elem (replyParam pr m) = Some (replyType d))"

text \<open>Where a successful \<^verbatim>\<open>register\<close> has put its service.\<close>

definition installed :: "bool \<Rightarrow> serviceMap \<Rightarrow> service \<Rightarrow> bool" where
  "installed isDefault m s =
     (if isDefault then defaultService m = Some s
      else serviceAt (services m) (name s) = Some s)"

text \<open>The error kinds of section 7 of the specification that cover a bad service name.\<close>

fun InvalidServiceName :: "rpc_error option outcome \<Rightarrow> bool" where
  "InvalidServiceName (Returns (Some (TypeNotExported n))) = True"
| "InvalidServiceName (Returns (Some (NoServiceName t))) = True"
| "InvalidServiceName out = False"

subsection \<open>Example receivers\<close>

text \<open>
  The example server of the repository registers \<^verbatim>\<open>new(HelloService)\<close>, whose methods
  are \<^verbatim>\<open>Say\<close> and \<^verbatim>\<open>UssdMessage\<close>, both with a \<^verbatim>\<open>*http.Request\<close> first.
\<close>

definition star :: "rtype \<Rightarrow> rtype" where
  "star t = PtrTo [] [] t"

definition UssdMessage :: Method where
  "UssdMessage =
     \<lparr>Method_Name = ''UssdMessage'', Method_PkgPath = [],
      Method_Type =
        \<lparr>params = [star (Plain ''HelloService'' ''main''), star typeOfRequest,
                   star (Plain ''UssdRequest'' ''main''), star (Plain ''UssdResponse'' ''main'')],
         results = [typeOfError]\<rparr>\<rparr>"

definition Say :: Method where
  "Say =
     \<lparr>Method_Name = ''Say'', Method_PkgPath = [],
      Method_Type =
        \<lparr>params = [star (Plain ''HelloService'' ''main''), star typeOfRequest,
                   star (Plain [] []), star (Plain [] [])],
         results = [typeOfError]\<rparr>\<rparr>"

definition HelloService :: Value where
  "HelloService =
     \<lparr>TypeOf = star (Plain ''HelloService'' ''main''), MethodSet = [Say, UssdMessage],
      IsNil = False\<rparr>"

text \<open>
  The service \<^verbatim>\<open>Calc\<close> of section 8 of the specification, with a method \<^verbatim>\<open>Add\<close> of
  the required shape (no request parameter) and a method \<^verbatim>\<open>Describe() string\<close> that
  is not of that shape.
\<close>

definition Add :: Method where
  "Add =
     \<lparr>Method_Name = ''Add'', Method_PkgPath = [],
      Method_Type =
        \<lparr>params = [star (Plain ''Calc'' ''main''), star (Plain ''Args'' ''main''),
                   star (Plain ''int'' [])],
         results = [typeOfError]\<rparr>\<rparr>"

definition Describe :: Method where
  "Describe =
     \<lparr>Method_Name = ''Describe'', Method_PkgPath = [],
      Method_Type = \<lparr>params = [star (Plain ''Calc'' ''main'')], results = [Plain ''string'' []]\<rparr>\<rparr>"

definition Calc :: Value where
  "Calc = \<lparr>TypeOf = star (Plain ''Calc'' ''main''), MethodSet = [Add, Describe], IsNil = False\<rparr>"

text \<open>A receiver whose type is not exported and has no methods: \<^verbatim>\<open>new(helper)\<close>.\<close>

definition helper :: Value where
  "helper = \<lparr>TypeOf = star (Plain ''helper'' ''main''), MethodSet = [], IsNil = False\<rparr>"

text \<open>
  A range table without entries, for the examples: their names are ASCII, where
  \<^verbatim>\<open>unicode.IsUpper\<close> does not read the table.
\<close>

definition noUpper :: "nat \<Rightarrow> bool" where
  "noUpper r = False"

section \<open>Properties\<close>

subsection \<open>Splitting at dots\<close>

lemma Split_not_Nil: "Split s sep \<noteq> []"
  by (induction s) (auto split: list.splits)

lemma length_Split: "length (Split s sep) = Suc (count_list s sep)"
  by (induction s) (auto split: list.splits simp: Split_not_Nil)

lemma Split_no_sep: "sep \<notin> set s \<Longrightarrow> Split s sep = [s]"
  by (induction s) auto

lemma Split_one_sep:
  "sep \<notin> set a \<Longrightarrow> sep \<notin> set b \<Longrightarrow> Split (a @ sep # b) sep = [a, b]"
  by (induction a) (auto simp: Split_no_sep)

subsection \<open>Exported names\<close>

text \<open>
  On a name that starts with an ASCII byte, \<^verbatim>\<open>isExported\<close> does not read the table
  \<open>Upper\<close>: the name is exported when that byte is one of A-Z.
\<close>

lemma isExported_ascii:
  "(of_char c :: nat) < 128 \<Longrightarrow>
   isExported U (c # cs) \<longleftrightarrow> 65 \<le> (of_char c :: nat) \<and> (of_char c :: nat) \<le> 90"
  by (simp add: isExported_def IsUpper_def MaxLatin1_def)

lemma isExported_empty: "isExported U [] \<longleftrightarrow> U RuneError"
  by (simp add: isExported_def IsUpper_def MaxLatin1_def RuneError_def)

subsection \<open>The shape of a method\<close>

lemma Kind_Ptr_iff: "Kind t = Ptr \<longleftrightarrow> Elem t \<noteq> None"
  by (cases t) auto

lemma isExportedOrBuiltin_Elem:
  "Elem t = Some e \<Longrightarrow> isExportedOrBuiltin U t = isExportedOrBuiltin U e"
  by (cases t) auto

lemma results_singleton:
  "(NumOut ft = 1 \<and> Out ft 0 = t) \<longleftrightarrow> results ft = [t]"
  by (cases "results ft") (auto simp: NumOut_def Out_def)

lemma nonReceiverParams_nth:
  "Suc i < NumIn (Method_Type m) \<Longrightarrow> nonReceiverParams m ! i = In (Method_Type m) (Suc i)"
  by (simp add: nonReceiverParams_def NumIn_def In_def)

lemma length_nonReceiverParams:
  "length (nonReceiverParams m) = NumIn (Method_Type m) - 1"
  by (simp add: nonReceiverParams_def NumIn_def)

lemma pointerTo_iff: "pointerTo P t \<longleftrightarrow> (\<exists>e. Elem t = Some e \<and> P e)"
  by (simp add: pointerTo_def split: option.splits)

lemma shapeConforms_True:
  "shapeConforms U True m \<longleftrightarrow>
     Method_PkgPath m = [] \<and> NumIn (Method_Type m) = 4
     \<and> Elem (In (Method_Type m) 1) = Some typeOfRequest
     \<and> pointerTo (isExportedOrBuiltin U) (In (Method_Type m) 2)
     \<and> pointerTo (isExportedOrBuiltin U) (In (Method_Type m) 3)
     \<and> results (Method_Type m) = [typeOfError]"
proof (cases "NumIn (Method_Type m) = 4")
  case True
  then have "nonReceiverParams m ! 0 = In (Method_Type m) 1"
    "nonReceiverParams m ! 1 = In (Method_Type m) 2"
    "nonReceiverParams m ! 2 = In (Method_Type m) 3"
    using nonReceiverParams_nth [of 0 m] nonReceiverParams_nth [of 1 m]
      nonReceiverParams_nth [of 2 m]
    by (simp_all add: numeral_2_eq_2 numeral_3_eq_3)
  with True show ?thesis
    by (simp add: shapeConforms_def argParam_def replyParam_def length_nonReceiverParams
        pointerTo_iff)
next
  case False
  then show ?thesis
    by (auto simp: shapeConforms_def length_nonReceiverParams)
qed

lemma shapeConforms_False:
  "shapeConforms U False m \<longleftrightarrow>
     Method_PkgPath m = [] \<and> NumIn (Method_Type m) = 3
     \<and> pointerTo (isExportedOrBuiltin U) (In (Method_Type m) 1)
     \<and> pointerTo (isExportedOrBuiltin U) (In (Method_Type m) 2)
     \<and> results (Method_Type m) = [typeOfError]"
proof (cases "NumIn (Method_Type m) = 3")
  case True
  then have "nonReceiverParams m ! 0 = In (Method_Type m) 1"
    "nonReceiverParams m ! 1 = In (Method_Type m) 2"
    using nonReceiverParams_nth [of 0 m] nonReceiverParams_nth [of 1 m]
    by (simp_all add: numeral_2_eq_2)
  with True show ?thesis
    by (simp add: shapeConforms_def argParam_def replyParam_def length_nonReceiverParams)
next
  case False
  then show ?thesis
    by (auto simp: shapeConforms_def length_nonReceiverParams)
qed


lemma describes_True:
  "NumIn (Method_Type m) = 4 \<Longrightarrow>
   describes True m d \<longleftrightarrow>
     rmethod d = m \<and> Elem (In (Method_Type m) 2) = Some (argsType d)
     \<and> Elem (In (Method_Type m) 3) = Some (replyType d)"
  using nonReceiverParams_nth [of 1 m] nonReceiverParams_nth [of 2 m]
  by (simp add: describes_def argParam_def replyParam_def numeral_2_eq_2 numeral_3_eq_3)

lemma describes_False:
  "NumIn (Method_Type m) = 3 \<Longrightarrow>
   describes False m d \<longleftrightarrow>
     rmethod d = m \<and> Elem (In (Method_Type m) 1) = Some (argsType d)
     \<and> Elem (In (Method_Type m) 2) = Some (replyType d)"
  using nonReceiverParams_nth [of 0 m] nonReceiverParams_nth [of 1 m]
  by (simp add: describes_def argParam_def replyParam_def numeral_2_eq_2)

lemma suitableMethod_True:
  "suitableMethod U True m = Some d \<longleftrightarrow> shapeConforms U True m \<and> describes True m d"
proof (cases "NumIn (Method_Type m) = 4")
  case True
  then show ?thesis
    unfolding shapeConforms_True describes_True [OF True]
    by (auto simp: suitableMethod_def Let_def Kind_Ptr_iff pointerTo_iff numeral_2_eq_2
        numeral_3_eq_3 isExportedOrBuiltin_Elem results_singleton [symmetric]
        split: option.splits)
next
  case False
  then show ?thesis
    by (simp add: suitableMethod_def shapeConforms_True Let_def)
qed

lemma suitableMethod_False:
  "suitableMethod U False m = Some d \<longleftrightarrow> shapeConforms U False m \<and> describes False m d"
proof (cases "NumIn (Method_Type m) = 3")
  case True
  then show ?thesis
    unfolding shapeConforms_False describes_False [OF True]
    by (auto simp: suitableMethod_def Let_def Kind_Ptr_iff pointerTo_iff numeral_2_eq_2
        numeral_3_eq_3 isExportedOrBuiltin_Elem results_singleton [symmetric]
        split: option.splits)
next
  case False
  then show ?thesis
    by (simp add: suitableMethod_def shapeConforms_False Let_def)
qed

lemma suitableMethod_Some_iff:
  "suitableMethod U pr m = Some d \<longleftrightarrow> shapeConforms U pr m \<and> describes pr m d"
  by (cases pr) (simp_all add: suitableMethod_True suitableMethod_False)

subsection \<open>Resolving a method name\<close>

lemma get_one_part:
  "CHR ''.'' \<notin> set meth \<Longrightarrow>
   get m meth =
     (case defaultService m of
        None \<Rightarrow> Panics NilDereference
      | Some s \<Rightarrow>
          (case Mapping.lookup (methods s) meth of
             None \<Rightarrow> Returns (Inl (CantFindMethod meth))
           | Some d \<Rightarrow> Returns (Inr (s, d))))"
  by (simp add: get_def Split_no_sep split: option.splits)

lemma get_two_parts:
  "CHR ''.'' \<notin> set a \<Longrightarrow> CHR ''.'' \<notin> set b \<Longrightarrow>
   get m (a @ CHR ''.'' # b) =
     (case serviceAt (services m) a of
        None \<Rightarrow> Panics NilDereference
      | Some s \<Rightarrow>
          (case Mapping.lookup (methods s) b of
             None \<Rightarrow> Returns (Inl (CantFindMethod (a @ CHR ''.'' # b)))
           | Some d \<Rightarrow> Returns (Inr (s, d))))"
  by (simp add: get_def Split_one_sep split: option.splits)

lemma get_absent_default_service:
  "length (Split meth (CHR ''.'')) = 1 \<Longrightarrow> defaultService m = None \<Longrightarrow>
   get m meth = Panics NilDereference"
  by (simp add: get_def)

lemma get_absent_named_service:
  "length (Split meth (CHR ''.'')) = 2 \<Longrightarrow>
   serviceAt (services m) (Split meth (CHR ''.'') ! 0) = None \<Longrightarrow>
   get m meth = Panics NilDereference"
  by (simp add: get_def)

lemma get_never_CantFindService: "get m meth \<noteq> Returns (Inl (CantFindService x))"
  by (simp add: get_def Let_def split: option.splits)

text \<open>
  Claim C1: for a method name whose selected service is absent, \<^verbatim>\<open>get\<close> returns a
  "service not found" error and does not fault. The code does not: on the registry
  of a new server, \<^verbatim>\<open>get("Foo.Bar")\<close> selects the nil service and line 210 reads its
  name before line 214 tests it, so the call panics.
\<close>

theorem get_unknown_service_panics:
  "get emptyMap ''Foo.Bar'' = Panics NilDereference"
  by (simp add: get_def emptyMap_def serviceAt_def)

text \<open>
  Claim C7: a method name that splits at its dots into neither one nor two parts (it
  has two dots or more, as \<^verbatim>\<open>"A.B.C"\<close>) is rejected as ill-formed, whatever the
  registry holds: no service and no method is looked up.
\<close>

theorem get_ill_formed:
  assumes "length (Split meth (CHR ''.'')) \<noteq> 1"
    and "length (Split meth (CHR ''.'')) \<noteq> 2"
  shows "get m meth = Returns (Inl (IllFormed meth)) \<and> 2 \<le> count_list meth (CHR ''.'')"
  using assms by (simp add: get_def length_Split)

theorem get_ill_formed_witness:
  "length (Split ''A.B.C'' (CHR ''.'')) = 3
   \<and> get emptyMap ''A.B.C'' = Returns (Inl (IllFormed ''A.B.C''))"
  using get_ill_formed [of "''A.B.C''" emptyMap] by simp

subsection \<open>The loop over the methods\<close>

lemma lookup_setupMethods_other:
  "n \<notin> Method_Name ` set ms \<Longrightarrow>
   Mapping.lookup (setupMethods U pr ms acc) n = Mapping.lookup acc n"
  by (induction ms arbitrary: acc) (auto split: option.splits)

lemma lookup_setupMethods_member:
  "distinct (map Method_Name ms) \<Longrightarrow> m \<in> set ms \<Longrightarrow>
   Mapping.lookup (setupMethods U pr ms acc) (Method_Name m) =
     (case suitableMethod U pr m of
        None \<Rightarrow> Mapping.lookup acc (Method_Name m)
      | Some d \<Rightarrow> Some d)"
proof (induction ms arbitrary: acc)
  case Nil
  then show ?case by simp
next
  case (Cons a ms)
  show ?case
  proof (cases "m = a")
    case True
    with Cons.prems have "Method_Name m \<notin> Method_Name ` set ms" by auto
    with True show ?thesis
      by (simp add: lookup_setupMethods_other split: option.splits)
  next
    case False
    with Cons.prems have "m \<in> set ms" "distinct (map Method_Name ms)"
      "Method_Name a \<noteq> Method_Name m"
      by auto
    with Cons.IH [of "acc"] Cons.IH [of "Mapping.update (Method_Name a) _ acc"]
    show ?thesis
      by (simp split: option.splits)
  qed
qed

lemma keys_setupMethods:
  "Mapping.keys (setupMethods U pr ms acc) =
     Mapping.keys acc \<union> Method_Name ` {m \<in> set ms. suitableMethod U pr m \<noteq> None}"
  by (induction ms arbitrary: acc) (auto split: option.splits)

lemma is_empty_setupMethods:
  "Mapping.is_empty (setupMethods U pr ms Mapping.empty) \<longleftrightarrow>
     (\<forall>m\<in>set ms. suitableMethod U pr m = None)"
  by (auto simp: Mapping.is_empty_def keys_setupMethods)

lemma suitableMethod_None_iff: "suitableMethod U pr m = None \<longleftrightarrow> \<not> shapeConforms U pr m"
proof -
  have "shapeConforms U pr m \<Longrightarrow> \<exists>d. describes pr m d"
  proof -
    assume c: "shapeConforms U pr m"
    then obtain a r where "Elem (argParam pr m) = Some a" "Elem (replyParam pr m) = Some r"
      by (auto simp: shapeConforms_def pointerTo_iff)
    then have "describes pr m \<lparr>rmethod = m, argsType = a, replyType = r\<rparr>"
      by (simp add: describes_def)
    then show ?thesis ..
  qed
  then show ?thesis
    using suitableMethod_Some_iff [of U pr m] by (cases "suitableMethod U pr m") auto
qed



subsection \<open>Registering\<close>

lemma setupService_Inr_iff:
  "setupService U v nm pr = Returns (Inr s) \<longleftrightarrow>
     (\<exists>sn. (if nm = [] then IndirectTypeName v = Returns sn \<and> isExported U sn else sn = nm)
        \<and> sn \<noteq> []
        \<and> \<not> Mapping.is_empty (setupMethods U pr (MethodSet v) Mapping.empty)
        \<and> s = \<lparr>name = sn, rcvr = v, rcvrType = TypeOf v,
                 methods = setupMethods U pr (MethodSet v) Mapping.empty, passReq = pr\<rparr>)"
  by (auto simp: setupService_def Let_def split: outcome.splits)

lemma register_success_iff:
  "register U m r nm pr dflt = (Returns None, m') \<longleftrightarrow>
     (\<exists>v s. r = Some v \<and> setupService U v nm pr = Returns (Inr s)
        \<and> (if dflt then m' = m\<lparr>defaultService := Some s\<rparr>
            else serviceAt (services m) (name s) = None
              \<and> m' = m\<lparr>services := Some (Mapping.update (name s) s
                          (case services m of None \<Rightarrow> Mapping.empty | Some svcs \<Rightarrow> svcs))\<rparr>))"
  by (auto simp: register_def serviceAt_def split: option.splits outcome.splits sum.splits)

lemma register_failure_unchanged:
  "fst (register U m r nm pr dflt) \<noteq> Returns None \<Longrightarrow> snd (register U m r nm pr dflt) = m"
  by (auto simp: register_def split: option.splits outcome.splits sum.splits if_splits)

lemma installed_register:
  assumes "register U m r nm pr dflt = (Returns None, m')"
  shows "\<exists>v s. r = Some v \<and> setupService U v nm pr = Returns (Inr s) \<and> installed dflt m' s"
proof -
  from assms obtain v s where vs: "r = Some v" "setupService U v nm pr = Returns (Inr s)"
    and m': "if dflt then m' = m\<lparr>defaultService := Some s\<rparr>
            else serviceAt (services m) (name s) = None
              \<and> m' = m\<lparr>services := Some (Mapping.update (name s) s
                          (case services m of None \<Rightarrow> Mapping.empty | Some svcs \<Rightarrow> svcs))\<rparr>"
    unfolding register_success_iff by blast
  from m' have "installed dflt m' s"
    by (auto simp: installed_def serviceAt_def split: if_splits)
  with vs show ?thesis by blast
qed



text \<open>The definitions that an evaluation of the examples unfolds.\<close>

lemmas example_defs =
  Calc_def Add_def Describe_def HelloService_def Say_def UssdMessage_def helper_def star_def
  noUpper_def typeOfError_def typeOfRequest_def emptyMap_def

lemmas eval_defs =
  register_def setupService_def IndirectTypeName_def suitableMethod_def isExported_def
  IsUpper_def MaxLatin1_def RuneError_def NumIn_def NumOut_def In_def Out_def Let_def
  get_def serviceAt_def






lemma register_default:
  "setupService U v nm pr = Returns (Inr s) \<Longrightarrow>
   register U m (Some v) nm pr True = (Returns None, m\<lparr>defaultService := Some s\<rparr>)"
  by (simp add: register_def)

lemma register_default_outcome:
  "fst (register U m r nm pr True) = fst (register U m0 r nm pr True)"
  by (simp add: register_def split: option.splits outcome.splits sum.splits)

lemma setupService_name:
  "setupService U v nm pr = Returns (Inr s) \<Longrightarrow>
   if nm = [] then IndirectTypeName v = Returns (name s) else name s = nm"
  by (auto simp: setupService_Inr_iff split: if_splits)

lemma setupService_succeeds_iff:
  "(\<exists>s. setupService U v nm pr = Returns (Inr s)) \<longleftrightarrow>
     (\<exists>sn. (if nm = [] then IndirectTypeName v = Returns sn \<and> isExported U sn else sn = nm)
        \<and> sn \<noteq> [])
     \<and> (\<exists>mt\<in>set (MethodSet v). shapeConforms U pr mt)"
  by (auto simp: setupService_Inr_iff is_empty_setupMethods suitableMethod_None_iff)

text \<open>
  Claim C3, as the code has it: of two registrations as default one after the other,
  the second, of a receiver that passes the validation of its name and methods (the
  service name is not empty, and exported when it is derived; some method conforms),
  succeeds with no test for a collision and replaces the default service of the
  first, and a bare method name then resolves to a method of the second service or
  to no method at all. The outcome of a registration as default is the same on every
  registry. A second call that does not succeed leaves the registry, and the first
  default service, as they were.
\<close>

theorem second_default_supersedes_first:
  assumes "register U m r1 n1 p1 True = (Returns None, m1)"
  shows "(\<exists>s1. defaultService m1 = Some s1)
         \<and> (\<forall>m0. fst (register U m1 r2 n2 p2 True) = fst (register U m0 r2 n2 p2 True))
         \<and> (\<forall>v2 s2. r2 = Some v2 \<longrightarrow> setupService U v2 n2 p2 = Returns (Inr s2) \<longrightarrow>
               register U m1 r2 n2 p2 True = (Returns None, m1\<lparr>defaultService := Some s2\<rparr>)
               \<and> (\<forall>meth. CHR ''.'' \<notin> set meth \<longrightarrow>
                     get (snd (register U m1 r2 n2 p2 True)) meth =
                       (case Mapping.lookup (methods s2) meth of
                          None \<Rightarrow> Returns (Inl (CantFindMethod meth))
                        | Some d \<Rightarrow> Returns (Inr (s2, d)))))
         \<and> (\<forall>v2. r2 = Some v2 \<longrightarrow>
               ((\<exists>s2. setupService U v2 n2 p2 = Returns (Inr s2)) \<longleftrightarrow>
                  (\<exists>sn. (if n2 = [] then IndirectTypeName v2 = Returns sn \<and> isExported U sn
                          else sn = n2) \<and> sn \<noteq> [])
                  \<and> (\<exists>mt\<in>set (MethodSet v2). shapeConforms U p2 mt)))
         \<and> (fst (register U m1 r2 n2 p2 True) \<noteq> Returns None \<longrightarrow>
               snd (register U m1 r2 n2 p2 True) = m1)"
proof (intro conjI allI impI)
  from installed_register [OF assms] show "\<exists>s1. defaultService m1 = Some s1"
    by (auto simp: installed_def)
next
  fix m0
  show "fst (register U m1 r2 n2 p2 True) = fst (register U m0 r2 n2 p2 True)"
    by (rule register_default_outcome)
next
  fix v2 s2
  assume "r2 = Some v2" "setupService U v2 n2 p2 = Returns (Inr s2)"
  then show r: "register U m1 r2 n2 p2 True = (Returns None, m1\<lparr>defaultService := Some s2\<rparr>)"
    by (simp add: register_default)
  fix meth
  assume "CHR ''.'' \<notin> set meth"
  with r show "get (snd (register U m1 r2 n2 p2 True)) meth =
                 (case Mapping.lookup (methods s2) meth of
                    None \<Rightarrow> Returns (Inl (CantFindMethod meth))
                  | Some d \<Rightarrow> Returns (Inr (s2, d)))"
    by (simp add: get_one_part)
next
  fix v2
  show "(\<exists>s2. setupService U v2 n2 p2 = Returns (Inr s2)) \<longleftrightarrow>
                  (\<exists>sn. (if n2 = [] then IndirectTypeName v2 = Returns sn \<and> isExported U sn
                          else sn = n2) \<and> sn \<noteq> [])
                  \<and> (\<exists>mt\<in>set (MethodSet v2). shapeConforms U p2 mt)"
    by (rule setupService_succeeds_iff)
next
  assume "fst (register U m1 r2 n2 p2 True) \<noteq> Returns None"
  then show "snd (register U m1 r2 n2 p2 True) = m1"
    by (rule register_failure_unchanged)
qed

theorem second_default_supersedes_first_witness:
  "fst (register noUpper emptyMap (Some Calc) [] False True) = Returns None
   \<and> fst (register noUpper (snd (register noUpper emptyMap (Some Calc) [] False True))
            (Some HelloService) [] True True) = Returns None
   \<and> get (snd (register noUpper (snd (register noUpper emptyMap (Some Calc) [] False True))
            (Some HelloService) [] True True)) ''Add'' = Returns (Inl (CantFindMethod ''Add''))"
proof -
  let ?m1 = "snd (register noUpper emptyMap (Some Calc) [] False True)"
  have ok1: "fst (register noUpper emptyMap (Some Calc) [] False True) = Returns None"
    by (simp add: eval_defs example_defs)
  then have r1: "register noUpper emptyMap (Some Calc) [] False True = (Returns None, ?m1)"
    by (simp add: prod_eq_iff)
  obtain s2 where s2: "setupService noUpper HelloService [] True = Returns (Inr s2)"
    by (simp add: eval_defs example_defs)
  then have "methods s2 = setupMethods noUpper True (MethodSet HelloService) Mapping.empty"
    by (auto simp: setupService_Inr_iff)
  then have none: "Mapping.lookup (methods s2) ''Add'' = None"
    by (simp add: eval_defs example_defs lookup_update')
  have nodot: "CHR ''.'' \<notin> set ''Add''" by simp
  note th = second_default_supersedes_first [OF r1, of "Some HelloService" "[]" True]
  from th have c: "\<forall>v2 s2. Some HelloService = Some v2 \<longrightarrow>
      setupService noUpper v2 [] True = Returns (Inr s2) \<longrightarrow>
      register noUpper ?m1 (Some HelloService) [] True True
        = (Returns None, ?m1\<lparr>defaultService := Some s2\<rparr>)
      \<and> (\<forall>meth. CHR ''.'' \<notin> set meth \<longrightarrow>
            get (snd (register noUpper ?m1 (Some HelloService) [] True True)) meth =
              (case Mapping.lookup (methods s2) meth of
                 None \<Rightarrow> Returns (Inl (CantFindMethod meth))
               | Some d \<Rightarrow> Returns (Inr (s2, d))))"
    by (elim conjE)
  from c s2 have r2: "register noUpper ?m1 (Some HelloService) [] True True
          = (Returns None, ?m1\<lparr>defaultService := Some s2\<rparr>)"
    by blast
  from c s2 nodot
  have "get (snd (register noUpper ?m1 (Some HelloService) [] True True)) ''Add'' =
          (case Mapping.lookup (methods s2) ''Add'' of
             None \<Rightarrow> Returns (Inl (CantFindMethod ''Add''))
           | Some d \<Rightarrow> Returns (Inr (s2, d)))"
    by blast
  with none r2 ok1 show ?thesis by simp
qed

text \<open>
  The claim as stated covers every second call. After \<^verbatim>\<open>Calc\<close> is registered as
  default, the registration of \<^verbatim>\<open>HelloService\<close> as default without a request
  parameter finds no suitable method and fails; the default service is still the
  first, and \<^verbatim>\<open>get("Add")\<close> resolves to it.
\<close>

theorem second_default_invalid_receiver_counterexample:
  "fst (register noUpper emptyMap (Some Calc) [] False True) = Returns None
   \<and> register noUpper (snd (register noUpper emptyMap (Some Calc) [] False True))
         (Some HelloService) [] False True
       = (Returns (Some (NoSuitableMethods ''HelloService'')),
          snd (register noUpper emptyMap (Some Calc) [] False True))
   \<and> (\<exists>s1. get (snd (register noUpper (snd (register noUpper emptyMap (Some Calc) [] False True))
                       (Some HelloService) [] False True)) ''Add''
            = Returns (Inr (s1, \<lparr>rmethod = Add, argsType = Plain ''Args'' ''main'',
                                  replyType = Plain ''int'' []\<rparr>))
          \<and> rcvr s1 = Calc)"
  by (simp add: eval_defs example_defs lookup_update')






text \<open>
  Claim C10: the empty method name is not ill-formed. It splits into the one part
  \<^verbatim>\<open>""\<close> and is looked up in the default service; when there is a default service,
  which has no method of the empty name, the result is "can't find method".
\<close>

theorem get_empty_name:
  assumes "defaultService m = Some s"
    and "Mapping.lookup (methods s) [] = None"
  shows "Split [] (CHR ''.'') = [[]] \<and> get m [] = Returns (Inl (CantFindMethod []))"
  using assms by (simp add: get_def)

theorem get_empty_name_witness:
  "fst (register noUpper emptyMap (Some HelloService) [] True True) = Returns None
   \<and> get (snd (register noUpper emptyMap (Some HelloService) [] True True)) []
       = Returns (Inl (CantFindMethod []))"
proof -
  let ?m = "snd (register noUpper emptyMap (Some HelloService) [] True True)"
  have ok: "fst (register noUpper emptyMap (Some HelloService) [] True True) = Returns None"
    by (simp add: eval_defs example_defs)
  obtain s where s: "defaultService ?m = Some s" and n: "Mapping.lookup (methods s) [] = None"
    by (simp add: eval_defs example_defs lookup_update')
  from get_empty_name [OF s n] ok show ?thesis by simp
qed

text \<open>
  Claim C5, as the code has it: for a receiver none of whose methods has the required
  shape, \<^verbatim>\<open>register\<close> never succeeds and leaves the registry as it was; when the
  service name has passed the tests of lines 64-73, the error is "no exported methods
  of suitable type" and names the service: the name that was given, or the type name
  of the receiver when none was given.
\<close>

theorem register_no_suitable_methods:
  assumes "\<forall>mt\<in>set (MethodSet v). \<not> shapeConforms U pr mt"
  shows "fst (register U m (Some v) nm pr dflt) \<noteq> Returns None
         \<and> snd (register U m (Some v) nm pr dflt) = m
         \<and> (\<forall>sn. (if nm = [] then IndirectTypeName v = Returns sn \<and> isExported U sn
                    else sn = nm) \<longrightarrow> sn \<noteq> [] \<longrightarrow>
                fst (register U m (Some v) nm pr dflt)
                  = Returns (Some (NoSuitableMethods sn)))"
proof -
  from assms have e: "Mapping.is_empty (setupMethods U pr (MethodSet v) Mapping.empty)"
    by (simp add: is_empty_setupMethods suitableMethod_None_iff)
  then have fail: "fst (register U m (Some v) nm pr dflt) \<noteq> Returns None"
    by (auto simp: register_def setupService_def Let_def split: outcome.splits)
  then have same: "snd (register U m (Some v) nm pr dflt) = m"
    by (rule register_failure_unchanged)
  have "fst (register U m (Some v) nm pr dflt) = Returns (Some (NoSuitableMethods sn))"
    if "if nm = [] then IndirectTypeName v = Returns sn \<and> isExported U sn else sn = nm"
      and "sn \<noteq> []" for sn
    using that e by (auto simp: register_def setupService_def Let_def split: if_splits)
  with fail same show ?thesis by blast
qed

theorem register_no_suitable_methods_witness:
  "filter (shapeConforms noUpper False) (MethodSet HelloService) = []
   \<and> register noUpper emptyMap (Some HelloService) [] False False
       = (Returns (Some (NoSuitableMethods ''HelloService'')), emptyMap)"
proof -
  let ?r = "register noUpper emptyMap (Some HelloService) [] False False"
  have f: "filter (shapeConforms noUpper False) (MethodSet HelloService) = []"
    by (simp add: shapeConforms_def nonReceiverParams_def example_defs)
  then have z: "\<forall>mt\<in>set (MethodSet HelloService). \<not> shapeConforms noUpper False mt"
    by (simp add: filter_empty_conv)
  have n: "if [] = ([] :: string)
           then IndirectTypeName HelloService = Returns ''HelloService''
             \<and> isExported noUpper ''HelloService''
           else ''HelloService'' = []"
    by (simp add: eval_defs example_defs)
  have ne: "''HelloService'' \<noteq> []" by simp
  note th = register_no_suitable_methods [OF z, of emptyMap "[]" False]
  from th have "snd ?r = emptyMap" by blast
  moreover from th n ne have "fst ?r = Returns (Some (NoSuitableMethods ''HelloService''))"
    by blast
  ultimately have "?r = (Returns (Some (NoSuitableMethods ''HelloService'')), emptyMap)"
    by (simp add: prod_eq_iff)
  with f show ?thesis by simp
qed

text \<open>
  The claim as stated says that the error names the type of the receiver. Registered
  under the name \<^verbatim>\<open>"Foo"\<close> without a request parameter, \<^verbatim>\<open>HelloService\<close> has no
  suitable method, and the error names \<^verbatim>\<open>"Foo"\<close>.
\<close>

theorem no_suitable_methods_names_service_counterexample:
  "filter (shapeConforms noUpper False) (MethodSet HelloService) = []
   \<and> IndirectTypeName HelloService = Returns ''HelloService''
   \<and> register noUpper emptyMap (Some HelloService) ''Foo'' False False
       = (Returns (Some (NoSuitableMethods ''Foo'')), emptyMap)
   \<and> fst (register noUpper emptyMap (Some HelloService) ''Foo'' False False)
       \<noteq> Returns (Some (NoSuitableMethods ''HelloService''))"
  by (simp add: shapeConforms_def nonReceiverParams_def eval_defs example_defs)

text \<open>
  Claim C6, as the code has it: \<^verbatim>\<open>register\<close> fails for the service name (type not
  exported, or no service name) exactly when no name is given and the name derived
  from the type of the receiver is not exported or is empty. A name that is given is
  not tested. (In Go the empty name is not exported, so that the second error is
  never returned; with an arbitrary table \<open>Upper\<close> the theorem covers it.)
\<close>

theorem register_invalid_name_iff:
  "InvalidServiceName (fst (register U m (Some v) nm pr dflt)) \<longleftrightarrow>
     nm = [] \<and> (\<exists>sn. IndirectTypeName v = Returns sn \<and> (\<not> isExported U sn \<or> sn = []))"
  by (auto simp: register_def setupService_def Let_def
      split: outcome.splits option.splits if_splits)

theorem register_invalid_name_iff_witness:
  "InvalidServiceName (fst (register noUpper emptyMap (Some helper) [] False False))
   \<and> \<not> InvalidServiceName (fst (register noUpper emptyMap (Some Calc) ''calc'' False False))"
proof -
  have "IndirectTypeName helper = Returns ''helper''" "\<not> isExported noUpper ''helper''"
    by (simp_all add: eval_defs example_defs)
  then have "InvalidServiceName (fst (register noUpper emptyMap (Some helper) [] False False))"
    using register_invalid_name_iff [of noUpper emptyMap helper "[]" False False] by blast
  moreover have "\<not> InvalidServiceName
      (fst (register noUpper emptyMap (Some Calc) ''calc'' False False))"
    using register_invalid_name_iff [of noUpper emptyMap Calc "''calc''" False False] by simp
  ultimately show ?thesis ..
qed

text \<open>
  The claim as stated covers a name that is given: \<^verbatim>\<open>"calc"\<close> does not start with
  an upper-case letter, and the registration under it succeeds.
\<close>

theorem explicit_lower_case_name_counterexample:
  "\<not> isExported noUpper ''calc''
   \<and> fst (register noUpper emptyMap (Some Calc) ''calc'' False False) = Returns None
   \<and> \<not> InvalidServiceName (fst (register noUpper emptyMap (Some Calc) ''calc'' False False))"
  by (simp add: eval_defs example_defs)

lemma count_list_pos: "x \<in> set xs \<Longrightarrow> 0 < count_list xs x"
  by (induction xs) auto

lemma get_dotted_service_name:
  assumes "CHR ''.'' \<in> set a"
  shows "get m (a @ CHR ''.'' # b) = Returns (Inl (IllFormed (a @ CHR ''.'' # b)))"
proof -
  from assms have "0 < count_list a (CHR ''.'')" by (rule count_list_pos)
  then have "2 < length (Split (a @ CHR ''.'' # b) (CHR ''.''))"
    by (simp add: length_Split)
  then show ?thesis by (simp add: get_def)
qed

text \<open>
  Claim C8, as the code has it: after a successful registration that is not as
  default, of a receiver with a conforming method \<open>mt\<close>, the registry holds under the
  service name the service built from that receiver, with the descriptor of \<open>mt\<close>;
  \<^verbatim>\<open>get\<close> of \<^verbatim>\<open>"N.M"\<close> returns that service and that descriptor when the service
  name \<open>N\<close> has no dot, and is ill-formed when it has one. Method names are Go
  identifiers, without a dot. Services and descriptors are values here: they are
  never changed after \<^verbatim>\<open>register\<close> has built them, so equal values stand for the
  same objects.
\<close>

theorem register_get_round_trip:
  assumes "register U m (Some v) nm pr False = (Returns None, m')"
    and "distinct (map Method_Name (MethodSet v))"
    and "mt \<in> set (MethodSet v)"
    and "shapeConforms U pr mt"
    and "CHR ''.'' \<notin> set (Method_Name mt)"
  shows "\<exists>s d. serviceAt (services m') (name s) = Some s
           \<and> rcvr s = v \<and> passReq s = pr
           \<and> (if nm = [] then IndirectTypeName v = Returns (name s) else name s = nm)
           \<and> Mapping.lookup (methods s) (Method_Name mt) = Some d \<and> describes pr mt d
           \<and> get m' (name s @ CHR ''.'' # Method_Name mt)
               = (if CHR ''.'' \<in> set (name s)
                  then Returns (Inl (IllFormed (name s @ CHR ''.'' # Method_Name mt)))
                  else Returns (Inr (s, d)))"
proof -
  from installed_register [OF assms(1)] obtain s
    where s: "setupService U v nm pr = Returns (Inr s)"
      and i: "serviceAt (services m') (name s) = Some s"
    by (auto simp: installed_def)
  from s have f: "rcvr s = v" "passReq s = pr"
    "methods s = setupMethods U pr (MethodSet v) Mapping.empty"
    by (auto simp: setupService_Inr_iff)
  from assms(4) obtain d where d: "suitableMethod U pr mt = Some d"
    by (cases "suitableMethod U pr mt") (simp_all add: suitableMethod_None_iff)
  then have dd: "describes pr mt d" by (simp add: suitableMethod_Some_iff)
  from lookup_setupMethods_member [OF assms(2,3), of U pr Mapping.empty] d f(3)
  have l: "Mapping.lookup (methods s) (Method_Name mt) = Some d" by simp
  have "get m' (name s @ CHR ''.'' # Method_Name mt)
               = (if CHR ''.'' \<in> set (name s)
                  then Returns (Inl (IllFormed (name s @ CHR ''.'' # Method_Name mt)))
                  else Returns (Inr (s, d)))"
    using assms(5) i l by (simp add: get_dotted_service_name get_two_parts)
  with i f(1,2) setupService_name [OF s] l dd show ?thesis by blast
qed

theorem register_get_round_trip_witness:
  "fst (register noUpper emptyMap (Some Calc) [] False False) = Returns None
   \<and> (\<exists>s. get (snd (register noUpper emptyMap (Some Calc) [] False False)) ''Calc.Add''
            = Returns (Inr (s, \<lparr>rmethod = Add, argsType = Plain ''Args'' ''main'',
                                 replyType = Plain ''int'' []\<rparr>))
          \<and> name s = ''Calc'' \<and> rcvr s = Calc)"
proof -
  let ?m' = "snd (register noUpper emptyMap (Some Calc) [] False False)"
  have ok: "fst (register noUpper emptyMap (Some Calc) [] False False) = Returns None"
    by (simp add: eval_defs example_defs)
  then have r: "register noUpper emptyMap (Some Calc) [] False False = (Returns None, ?m')"
    by (simp add: prod_eq_iff)
  have d: "distinct (map Method_Name (MethodSet Calc))" and a: "Add \<in> set (MethodSet Calc)"
    and nd: "CHR ''.'' \<notin> set (Method_Name Add)"
    by (simp_all add: example_defs)
  have c: "shapeConforms noUpper False Add"
    by (simp add: shapeConforms_def nonReceiverParams_def argParam_def
        replyParam_def pointerTo_def example_defs isExported_def IsUpper_def MaxLatin1_def)
  have n: "IndirectTypeName Calc = Returns ''Calc''" "Method_Name Add = ''Add''"
    by (simp_all add: eval_defs example_defs)
  from register_get_round_trip [OF r d a c nd] obtain s d
    where nm: "IndirectTypeName Calc = Returns (name s)" and rc: "rcvr s = Calc"
      and ds: "describes False Add d"
      and g: "get ?m' (name s @ CHR ''.'' # Method_Name Add)
               = (if CHR ''.'' \<in> set (name s)
                  then Returns (Inl (IllFormed (name s @ CHR ''.'' # Method_Name Add)))
                  else Returns (Inr (s, d)))"
    by auto
  from nm n have ns: "name s = ''Calc''" by simp
  from ds have "d = \<lparr>rmethod = Add, argsType = Plain ''Args'' ''main'',
                       replyType = Plain ''int'' []\<rparr>"
    by (simp add: describes_def argParam_def replyParam_def nonReceiverParams_def example_defs)
  with g ns n rc ok show ?thesis by simp
qed

text \<open>
  The claim as stated covers every service name: the registration of \<^verbatim>\<open>Calc\<close> under
  \<^verbatim>\<open>"Math.Calc"\<close> succeeds and installs \<^verbatim>\<open>Add\<close>, and \<^verbatim>\<open>get("Math.Calc.Add")\<close> is
  ill-formed.
\<close>

theorem dotted_service_name_counterexample:
  "fst (register noUpper emptyMap (Some Calc) ''Math.Calc'' False False) = Returns None
   \<and> shapeConforms noUpper False Add
   \<and> get (snd (register noUpper emptyMap (Some Calc) ''Math.Calc'' False False)) ''Math.Calc.Add''
       = Returns (Inl (IllFormed ''Math.Calc.Add''))"
  by (simp add: shapeConforms_def nonReceiverParams_def argParam_def replyParam_def
      pointerTo_def eval_defs example_defs)

end
